theory Spec2Isabelle
  imports Main
begin

section \<open>Python values, errors and containers\<close>

text \<open>
  The two modules are Python 2 (Jython) code. Every exception the code can raise is a
  value of \<open>error\<close>; a function that can raise returns \<open>error + 'a\<close>, and, where the
  mutations made before the raise stay visible, the state next to it.
\<close>

datatype error = KeyError | AttributeError | TypeError | ValueError | NameError

text \<open>
  A Breakpoint instance is an object with identity: it lives in a store, and the
  registry's dictionaries and sets hold references to it. \<open>party\<close> is the identity of
  an interested party (a debugger session).
\<close>

type_synonym ref = nat
type_synonym party = string

text \<open>
  A Python \<open>set\<close> of Breakpoints is modelled as a list without duplicates; the order of
  the list stands for the iteration order, which Python leaves unspecified.
  \<open>set.add\<close> keeps an element that is there, \<open>set.remove\<close> raises KeyError on an
  element that is not.
\<close>

definition set_add :: "ref \<Rightarrow> ref list \<Rightarrow> ref list" where
  "set_add r s = (if r \<in> set s then s else s @ [r])"

definition set_remove :: "ref \<Rightarrow> ref list \<Rightarrow> error + ref list" where
  "set_remove r s = (if r \<in> set s then Inr (removeAll r s) else Inl KeyError)"

text \<open>
  \<open>int(location)\<close> on a string: the white space around the literal (space, tab, line
  feed, vertical tab, form feed, carriage return) is dropped, then an optional sign
  and at least one decimal digit are read; anything else is ValueError (\<open>None\<close>).
\<close>

definition digit_val :: "char \<Rightarrow> int option" where
  "digit_val c = map_of
     [(CHR ''0'', 0), (CHR ''1'', 1), (CHR ''2'', 2), (CHR ''3'', 3), (CHR ''4'', 4),
      (CHR ''5'', 5), (CHR ''6'', 6), (CHR ''7'', 7), (CHR ''8'', 8), (CHR ''9'', 9)] c"

fun digits_val :: "int \<Rightarrow> string \<Rightarrow> int option" where
  "digits_val acc [] = Some acc"
| "digits_val acc (c # cs) =
     (case digit_val c of None \<Rightarrow> None | Some d \<Rightarrow> digits_val (10 * acc + d) cs)"

definition is_blank :: "char \<Rightarrow> bool" where
  "is_blank c = (c = CHR '' '' \<or> c = CHR 0x09 \<or> c = CHR 0x0A \<or> c = CHR 0x0B
                 \<or> c = CHR 0x0C \<or> c = CHR 0x0D)"

definition strip :: "string \<Rightarrow> string" where
  "strip s = rev (dropWhile is_blank (rev (dropWhile is_blank s)))"

definition py_int :: "string \<Rightarrow> int option" where
  "py_int s =
     (case strip s of
        [] \<Rightarrow> None
      | c # cs \<Rightarrow>
          if c = CHR ''-'' then (if cs = [] then None else map_option uminus (digits_val 0 cs))
          else if c = CHR ''+'' then (if cs = [] then None else digits_val 0 cs)
          else digits_val 0 (c # cs))"

section \<open>Breakpoints\<close>

subsection \<open>The Breakpoint object\<close>

text \<open>
  The slots of a Breakpoint. \<open>bp_id\<close> is the slot \<open>_id\<close>: it is unset (\<open>None\<close>) until
  \<open>_add\<close> assigns it, and reading it unset raises AttributeError. \<open>enabled\<close> and
  \<open>ignored\<close> are \<open>defaultdict(bool)\<close> and \<open>defaultdict(int)\<close>: total functions whose
  value at a key never written is \<open>False\<close> and \<open>0\<close>.
\<close>

record breakpoint =
  bp_id :: "int option"
  filename :: string
  line_number :: "int option"
  function_name :: string
  temporary :: bool
  condition :: "string option"
  hits :: int
  enabled :: "party \<Rightarrow> bool"
  ignored :: "party \<Rightarrow> int"
  bp_note :: string

text \<open>The \<open>location\<close> argument of the constructor: an integer or a string.\<close>

datatype loc_arg = IntArg int | StrArg string

text \<open>
  \<open>__init__\<close>: \<open>int(location)\<close> decides between a line-keyed and a function-keyed
  breakpoint. The new object is detached: nothing registers it.
\<close>

definition init_Breakpoint ::
  "string \<Rightarrow> loc_arg \<Rightarrow> bool \<Rightarrow> string option \<Rightarrow> string \<Rightarrow> breakpoint" where
  "init_Breakpoint fname loc temp cond nt =
     (let parsed = (case loc of IntArg n \<Rightarrow> Some n | StrArg s \<Rightarrow> py_int s) in
      \<lparr> bp_id = None,
        filename = fname,
        line_number = parsed,
        function_name =
          (case parsed of Some _ \<Rightarrow> [] | None \<Rightarrow> (case loc of StrArg s \<Rightarrow> s | IntArg _ \<Rightarrow> [])),
        temporary = temp,
        condition = cond,
        hits = 0,
        enabled = (\<lambda>_. False),
        ignored = (\<lambda>_. 0),
        bp_note = nt \<rparr>)"

text \<open>
  The key of the location index: the tuple \<open>(filename, function_name or line_number)\<close>.
  A string is a key of another kind: it never equals a tuple.
\<close>

datatype selector = Line int | Name string | NoSelector

datatype pykey = TupleKey string selector | StrKey string

definition location :: "breakpoint \<Rightarrow> pykey" where
  "location b =
     TupleKey (filename b)
       (if function_name b \<noteq> [] then Name (function_name b)
        else (case line_number b of Some n \<Rightarrow> Line n | None \<Rightarrow> NoSelector))"

subsection \<open>The registry: class attributes and the object store\<close>

text \<open>
  \<open>objects\<close> is the store of Breakpoint instances, \<open>allocated\<close> the number of
  instances created so far (the next fresh reference); the other three fields are the
  class attributes \<open>_id_counter\<close>, \<open>_instances\<close> and \<open>_break_locations\<close>.
\<close>

record state =
  objects :: "ref \<Rightarrow> breakpoint"
  allocated :: nat
  id_counter :: int
  instances :: "int \<rightharpoonup> ref"
  break_locations :: "pykey \<rightharpoonup> ref list"

definition blank :: breakpoint where
  "blank = init_Breakpoint [] (IntArg 0) False None []"

definition initial :: state where
  "initial = \<lparr> objects = (\<lambda>_. blank), allocated = 0, id_counter = 0,
               instances = Map.empty, break_locations = Map.empty \<rparr>"

text \<open>\<open>Breakpoint(filename, location, ...)\<close>: a new detached instance in the store.\<close>

definition new_Breakpoint ::
  "string \<Rightarrow> loc_arg \<Rightarrow> bool \<Rightarrow> string option \<Rightarrow> string \<Rightarrow> state \<Rightarrow> ref \<times> state" where
  "new_Breakpoint fname loc temp cond nt st =
     (allocated st,
      st\<lparr> objects := (objects st)(allocated st := init_Breakpoint fname loc temp cond nt),
          allocated := Suc (allocated st) \<rparr>)"

definition next_id :: "state \<Rightarrow> int \<times> state" where
  "next_id st = (id_counter st + 1, st\<lparr> id_counter := id_counter st + 1 \<rparr>)"

text \<open>
  \<open>_add\<close>: when \<open>_id\<close> is set the try block ends without doing anything (it returns on
  a truthy id and falls through on a falsy one); when reading \<open>_id\<close> raises
  AttributeError the handler registers the instance.
\<close>

definition add_bp :: "ref \<Rightarrow> state \<Rightarrow> state" where
  "add_bp r st =
     (let b = objects st r in
      case bp_id b of
        Some _ \<Rightarrow> st
      | None \<Rightarrow>
          (let locs = (case break_locations st (location b) of
                         Some s \<Rightarrow> (break_locations st)(location b \<mapsto> set_add r s)
                       | None \<Rightarrow> (break_locations st)(location b \<mapsto> [r]));
               st1 = st\<lparr> break_locations := locs \<rparr>;
               (n, st2) = next_id st1;
               st3 = st2\<lparr> objects := (objects st2)(r := b\<lparr> bp_id := Some n \<rparr>) \<rparr>
           in st3\<lparr> instances := (instances st3)(n \<mapsto> r) \<rparr>))"

text \<open>
  \<open>_remove\<close>: three statements, each of which can raise after the ones before it
  have taken effect. The first component is the exception, if any.
\<close>

definition remove_bp :: "ref \<Rightarrow> state \<Rightarrow> error option \<times> state" where
  "remove_bp r st =
     (let b = objects st r;
          st1 = st\<lparr> objects := (objects st)(r := b\<lparr> enabled := (\<lambda>_. False) \<rparr>) \<rparr>
      in case bp_id b of
           None \<Rightarrow> (Some AttributeError, st1)
         | Some i \<Rightarrow>
             (case instances st1 i of
                None \<Rightarrow> (Some KeyError, st1)
              | Some _ \<Rightarrow>
                  (let st2 = st1\<lparr> instances := (instances st1)(i := None) \<rparr> in
                   case break_locations st2 (location b) of
                     None \<Rightarrow> (Some KeyError, st2)
                   | Some s \<Rightarrow>
                       (case set_remove r s of
                          Inl e \<Rightarrow> (Some e, st2)
                        | Inr s' \<Rightarrow>
                            (None, st2\<lparr> break_locations :=
                                          (break_locations st2)(location b \<mapsto> s') \<rparr>)))))"

definition enable :: "ref \<Rightarrow> party \<Rightarrow> state \<Rightarrow> state" where
  "enable r p st =
     st\<lparr> objects := (objects st)(r := (objects st r)\<lparr> enabled := (enabled (objects st r))(p := True) \<rparr>) \<rparr>"

definition disable :: "ref \<Rightarrow> party \<Rightarrow> state \<Rightarrow> state" where
  "disable r p st =
     st\<lparr> objects := (objects st)(r := (objects st r)\<lparr> enabled := (enabled (objects st r))(p := False) \<rparr>) \<rparr>"

definition ignore :: "ref \<Rightarrow> party \<Rightarrow> int \<Rightarrow> state \<Rightarrow> state" where
  "ignore r p num_passes st =
     st\<lparr> objects := (objects st)(r := (objects st r)\<lparr> ignored := (ignored (objects st r))(p := num_passes) \<rparr>) \<rparr>"

subsection \<open>Resolving references\<close>

text \<open>
  One reference handed to \<open>resolve_breakpoints\<close>: a Breakpoint instance, an integer, a
  string, or a value of any other type, for which no branch of the loop is taken (a
  location tuple inside a list is such a value). The argument is either a list, tuple
  or set, given by its elements in iteration order, or a single value that is wrapped
  into a list.
\<close>

datatype pyval = BpRef ref | IntVal int | StrVal string | OtherVal

datatype ids_arg = Single pyval | Many "pyval list"

fun resolve_loop :: "state \<Rightarrow> pyval list \<Rightarrow> ref list \<Rightarrow> error + ref list" where
  "resolve_loop st [] breakpoints = Inr breakpoints"
| "resolve_loop st (BpRef r # rest) breakpoints = resolve_loop st rest (breakpoints @ [r])"
| "resolve_loop st (IntVal i # rest) breakpoints =
     (case instances st i of
        None \<Rightarrow> Inl KeyError
      | Some r \<Rightarrow> resolve_loop st rest (breakpoints @ [r]))"
| "resolve_loop st (StrVal s # rest) breakpoints =
     (case break_locations st (StrKey s) of
        None \<Rightarrow> Inl KeyError
      | Some rs \<Rightarrow> resolve_loop st rest (breakpoints @ rs))"
| "resolve_loop st (OtherVal # rest) breakpoints = resolve_loop st rest breakpoints"

definition resolve_breakpoints :: "state \<Rightarrow> ids_arg \<Rightarrow> error + ref list" where
  "resolve_breakpoints st breakpoint_ids =
     resolve_loop st (case breakpoint_ids of Single v \<Rightarrow> [v] | Many vs \<Rightarrow> vs) []"

subsection \<open>Frames and the trip test\<close>

text \<open>
  What the code reads of a frame. An object found in the calling scope is a function
  with its \<open>func_code.co_firstlineno\<close>, or an object without \<open>func_code\<close>. \<open>f_back\<close> is
  \<open>None\<close> for the outermost frame of a thread. \<open>eval_cond\<close> is the outcome of
  \<open>eval(condition, frame.f_globals, frame.f_locals)\<close> for each expression: it raises, or
  it gives a value of which only the truth value is used.
\<close>

datatype pyobj = Function int | NoFunction

datatype eval_outcome = Raises | Value bool

record scope =
  f_locals :: "string \<rightharpoonup> pyobj"
  f_globals :: "string \<rightharpoonup> pyobj"

record frame =
  f_lineno :: int
  co_filename :: string
  co_name :: string
  f_back :: "scope option"
  eval_cond :: "string \<Rightarrow> eval_outcome"

definition function_first_line :: "breakpoint \<Rightarrow> frame \<Rightarrow> error + int" where
  "function_first_line b frame_scope =
     (case f_back frame_scope of
        None \<Rightarrow> Inl AttributeError
      | Some back \<Rightarrow>
          (case (case f_locals back (function_name b) of
                   Some f \<Rightarrow> Inr f
                 | None \<Rightarrow>
                     (case f_globals back (function_name b) of
                        Some f \<Rightarrow> Inr f
                      | None \<Rightarrow> Inl KeyError)) of
             Inl e \<Rightarrow> Inl e
           | Inr (Function n) \<Rightarrow> Inr n
           | Inr NoFunction \<Rightarrow> Inl AttributeError))"

definition trip :: "breakpoint \<Rightarrow> frame \<Rightarrow> error + bool" where
  "trip b fr =
     (if function_name b = [] then Inr (line_number b = Some (f_lineno fr))
      else if function_name b \<noteq> co_name fr then Inr False
      else (case function_first_line b fr of
              Inr n \<Rightarrow> Inr (f_lineno fr = n)
            | Inl KeyError \<Rightarrow> Inr False
            | Inl e \<Rightarrow> Inl e))"

definition frame_location_by_line :: "frame \<Rightarrow> pykey" where
  "frame_location_by_line fr = TupleKey (co_filename fr) (Line (f_lineno fr))"

definition frame_location_by_function :: "frame \<Rightarrow> pykey" where
  "frame_location_by_function fr = TupleKey (co_filename fr) (Name (co_name fr))"

subsection \<open>The trip evaluator\<close>

text \<open>
  \<open>_break_locations.get(key, [])\<close> gives the stored set, or the empty list of the
  default. \<open>+\<close> concatenates two lists; a set is no operand of \<open>+\<close>, whatever the other
  operand is, and the expression raises TypeError. \<open>not breakpoint.condition\<close> holds
  for \<open>None\<close> and for the empty string; otherwise the condition is the text handed to
  \<open>eval\<close>.
\<close>

datatype container = PySet "ref list" | PyList "ref list"

definition locations_get :: "state \<Rightarrow> pykey \<Rightarrow> container" where
  "locations_get st k = (case break_locations st k of Some s \<Rightarrow> PySet s | None \<Rightarrow> PyList [])"

fun py_add :: "container \<Rightarrow> container \<Rightarrow> error + ref list" where
  "py_add (PyList xs) (PyList ys) = Inr (xs @ ys)"
| "py_add (PySet _) _ = Inl TypeError"
| "py_add _ (PySet _) = Inl TypeError"

definition unconditional :: "breakpoint \<Rightarrow> bool" where
  "unconditional b = (case condition b of None \<Rightarrow> True | Some c \<Rightarrow> c = [])"

definition condition_text :: "breakpoint \<Rightarrow> string" where
  "condition_text b = (case condition b of Some c \<Rightarrow> c | None \<Rightarrow> [])"

definition bump_hits :: "ref \<Rightarrow> state \<Rightarrow> state" where
  "bump_hits r st =
     st\<lparr> objects := (objects st)(r := (objects st r)\<lparr> hits := hits (objects st r) + 1 \<rparr>) \<rparr>"

definition consume_ignore :: "ref \<Rightarrow> party \<Rightarrow> state \<Rightarrow> state" where
  "consume_ignore r p st =
     st\<lparr> objects := (objects st)(r := (objects st r)\<lparr> ignored :=
           (ignored (objects st r))(p := ignored (objects st r) p - 1) \<rparr>) \<rparr>"

text \<open>
  One pass of the body of \<open>for breakpoint in possible\<close>, on the set \<open>relevant\<close> built so
  far. Without a condition an exception of \<open>_remove\<close> leaves the function; with a
  condition everything from \<open>eval\<close> to \<open>_remove\<close> is inside the \<open>try\<close>, whose bare
  \<open>except\<close> adds the breakpoint and goes on.
\<close>

definition check_breakpoint ::
  "frame \<Rightarrow> party \<Rightarrow> ref \<Rightarrow> ref set \<times> state \<Rightarrow> (error + ref set) \<times> state" where
  "check_breakpoint fr p r acc =
     (case acc of (relevant, st) \<Rightarrow>
        if \<not> enabled (objects st r) p then (Inr relevant, st)
        else
          (case trip (objects st r) fr of
             Inl e \<Rightarrow> (Inl e, st)
           | Inr False \<Rightarrow> (Inr relevant, st)
           | Inr True \<Rightarrow>
               (let st1 = bump_hits r st; b = objects st1 r in
                if unconditional b then
                  (if ignored b p > 0 then (Inr relevant, consume_ignore r p st1)
                   else if temporary b then
                     (case remove_bp r st1 of
                        (None, st2) \<Rightarrow> (Inr (insert r relevant), st2)
                      | (Some e, st2) \<Rightarrow> (Inl e, st2))
                   else (Inr (insert r relevant), st1))
                else
                  (case eval_cond fr (condition_text b) of
                     Raises \<Rightarrow> (Inr (insert r relevant), st1)
                   | Value False \<Rightarrow> (Inr relevant, st1)
                   | Value True \<Rightarrow>
                       (if ignored b p > 0 then (Inr relevant, consume_ignore r p st1)
                        else if temporary b then
                          (case remove_bp r st1 of
                             (_, st2) \<Rightarrow> (Inr (insert r relevant), st2))
                        else (Inr (insert r relevant), st1))))))"

fun scan :: "frame \<Rightarrow> party \<Rightarrow> ref list \<Rightarrow> ref set \<times> state \<Rightarrow> (error + ref set) \<times> state" where
  "scan fr p [] acc = (Inr (fst acc), snd acc)"
| "scan fr p (r # rs) acc =
     (case check_breakpoint fr p r acc of
        (Inl e, st') \<Rightarrow> (Inl e, st')
      | (Inr relevant', st') \<Rightarrow> scan fr p rs (relevant', st'))"

definition relevant_breakpoints :: "frame \<Rightarrow> party \<Rightarrow> state \<Rightarrow> (error + ref set) \<times> state" where
  "relevant_breakpoints fr p st =
     (case py_add (locations_get st (frame_location_by_line fr))
                  (locations_get st (frame_location_by_function fr)) of
        Inl e \<Rightarrow> (Inl e, st)
      | Inr possible \<Rightarrow> scan fr p possible ({}, st))"

text \<open>
  The states the registry can be in: those the operations of the class produce from
  the empty registry. \<open>scan\<close> is included on any list of existing instances.
\<close>

inductive reachable :: "state \<Rightarrow> bool" where
  reach_initial: "reachable initial"
| reach_new: "reachable st \<Longrightarrow> reachable (snd (new_Breakpoint fname loc temp cond nt st))"
| reach_add: "reachable st \<Longrightarrow> r < allocated st \<Longrightarrow> reachable (add_bp r st)"
| reach_remove: "reachable st \<Longrightarrow> r < allocated st \<Longrightarrow> reachable (snd (remove_bp r st))"
| reach_enable: "reachable st \<Longrightarrow> r < allocated st \<Longrightarrow> reachable (enable r p st)"
| reach_disable: "reachable st \<Longrightarrow> r < allocated st \<Longrightarrow> reachable (disable r p st)"
| reach_ignore: "reachable st \<Longrightarrow> r < allocated st \<Longrightarrow> reachable (ignore r p n st)"
| reach_check: "reachable st \<Longrightarrow> r < allocated st \<Longrightarrow>
     reachable (snd (check_breakpoint fr p r (relevant, st)))"
| reach_relevant: "reachable st \<Longrightarrow> reachable (snd (relevant_breakpoints fr p st))"

subsection \<open>Notions used in the statements\<close>

text \<open>
  Membership of an instance in the two indices, and the two outcomes of the condition
  that lead to a fire: it is absent or evaluates to a true value, or its evaluation
  raises.
\<close>

definition in_id_index :: "state \<Rightarrow> ref \<Rightarrow> bool" where
  "in_id_index st r =
     (case bp_id (objects st r) of None \<Rightarrow> False | Some i \<Rightarrow> instances st i = Some r)"

definition in_location_index :: "state \<Rightarrow> ref \<Rightarrow> bool" where
  "in_location_index st r =
     (case break_locations st (location (objects st r)) of
        None \<Rightarrow> False
      | Some s \<Rightarrow> r \<in> set s)"

definition condition_holds :: "frame \<Rightarrow> breakpoint \<Rightarrow> bool" where
  "condition_holds fr b = (unconditional b \<or> eval_cond fr (condition_text b) = Value True)"

definition condition_raises :: "frame \<Rightarrow> breakpoint \<Rightarrow> bool" where
  "condition_raises fr b = (\<not> unconditional b \<and> eval_cond fr (condition_text b) = Raises)"

text \<open>
  The loop run with the one candidate \<open>r\<close> at each frame of a list in turn: the
  results of the runs and the registry after the last.
\<close>

fun trips :: "frame list \<Rightarrow> party \<Rightarrow> ref \<Rightarrow> state \<Rightarrow> (error + ref set) list \<times> state" where
  "trips [] p r st = ([], st)"
| "trips (fr # frs) p r st =
     (case scan fr p [r] ({}, st) of
        (out, st') \<Rightarrow> (case trips frs p r st' of (outs, st'') \<Rightarrow> (out # outs, st'')))"

subsection \<open>Concrete registries and frames\<close>

text \<open>
  A registry with one breakpoint in file \<open>a.py\<close>, registered and enabled for party
  \<open>P1\<close>; that registry with a second, detached breakpoint; a frame of file \<open>a.py\<close>
  at a line, in a function, with a calling scope and
  with one outcome for every condition.
\<close>

definition registered_bp :: "loc_arg \<Rightarrow> bool \<Rightarrow> string option \<Rightarrow> state" where
  "registered_bp loc temp cond =
     (let (r, st) = new_Breakpoint ''a.py'' loc temp cond [] initial
      in enable r ''P1'' (add_bp r st))"

definition second_bp :: state where
  "second_bp =
     snd (new_Breakpoint ''a.py'' (IntArg 10) False None []
            (registered_bp (IntArg 10) False None))"

definition frame_at :: "int \<Rightarrow> string \<Rightarrow> scope option \<Rightarrow> eval_outcome \<Rightarrow> frame" where
  "frame_at line fname caller outcome =
     \<lparr> f_lineno = line, co_filename = ''a.py'', co_name = fname, f_back = caller,
       eval_cond = (\<lambda>_. outcome) \<rparr>"

definition caller_scope :: "(string \<rightharpoonup> pyobj) \<Rightarrow> scope" where
  "caller_scope globals = \<lparr> f_locals = Map.empty, f_globals = globals \<rparr>"

section \<open>Stream hijacking\<close>

subsection \<open>Objects, the interpreter state and the hijacker\<close>

text \<open>
  The values the hijacker handles: an object known by its identity alone (a stream, a
  display hook, a thread, a time stamp), or a ProxyIO instance with its four
  endpoints \<open>stdin\<close>, \<open>stdout\<close>, \<open>stderr\<close>, \<open>displayhook\<close>.
\<close>

datatype sysval = Obj nat | ProxyIO sysval sysval sysval sysval

fun attr_of :: "sysval \<Rightarrow> string \<Rightarrow> error + sysval" where
  "attr_of (ProxyIO i out e d) name =
     (if name = ''stdin'' then Inr i
      else if name = ''stdout'' then Inr out
      else if name = ''stderr'' then Inr e
      else if name = ''displayhook'' then Inr d
      else Inl AttributeError)"
| "attr_of (Obj _) name = Inl AttributeError"

text \<open>
  \<open>getThreadState\<close> comes from \<open>shared.tools.thread\<close>, outside these modules:
  \<open>systemState w t\<close> is the address of the object \<open>getThreadState(t).systemState\<close>, and
  \<open>sys_attrs w a\<close> the attributes of the sys-state object at address \<open>a\<close>. Two threads
  may share one sys-state object. Reading an attribute that the object does not have
  raises AttributeError; assigning an attribute of the object succeeds.
\<close>

record world =
  systemState :: "sysval \<Rightarrow> nat"
  sys_attrs :: "nat \<Rightarrow> string \<rightharpoonup> sysval"

definition sys_getattr :: "nat \<Rightarrow> string \<Rightarrow> world \<Rightarrow> error + sysval" where
  "sys_getattr a name w =
     (case sys_attrs w a name of None \<Rightarrow> Inl AttributeError | Some v \<Rightarrow> Inr v)"

definition sys_setattr :: "nat \<Rightarrow> string \<Rightarrow> sysval \<Rightarrow> world \<Rightarrow> world" where
  "sys_setattr a name v w = w\<lparr> sys_attrs := (sys_attrs w)(a := (sys_attrs w a)(name \<mapsto> v)) \<rparr>"

text \<open>
  The slots of a SysHijack instance, from its first statement
  \<open>self._target_thread = thread\<close> on; the other slots are unset (\<open>None\<close>) until
  assigned. The name \<open>_thread_state\<close> of \<open>__slots__\<close> is also a property of the class
  body; the model follows the methods, which read it as the property.
\<close>

record SysHijack =
  target_thread :: sysval
  io_proxy :: "sysval option"
  original_stdin :: "sysval option"
  original_stdout :: "sysval option"
  original_stderr :: "sysval option"
  original_displayhook :: "sysval option"

definition thread_sys :: "SysHijack \<Rightarrow> world \<Rightarrow> nat" where
  "thread_sys h w = systemState w (target_thread h)"

subsection \<open>Attribute fallback\<close>

text \<open>
  \<open>object.__setattr__\<close> on an instance of a class with \<open>__slots__\<close> and no
  \<open>__dict__\<close>: a slot is assigned; a property without setter, a method, or a name the
  class does not know raises AttributeError.
\<close>

definition slot_write :: "string \<Rightarrow> sysval \<Rightarrow> SysHijack \<Rightarrow> error + SysHijack" where
  "slot_write name v h =
     (if name = ''_target_thread'' then Inr (h\<lparr> target_thread := v \<rparr>)
      else if name = ''_io_proxy'' then Inr (h\<lparr> io_proxy := Some v \<rparr>)
      else if name = ''_original_stdin'' then Inr (h\<lparr> original_stdin := Some v \<rparr>)
      else if name = ''_original_stdout'' then Inr (h\<lparr> original_stdout := Some v \<rparr>)
      else if name = ''_original_stderr'' then Inr (h\<lparr> original_stderr := Some v \<rparr>)
      else if name = ''_original_displayhook'' then Inr (h\<lparr> original_displayhook := Some v \<rparr>)
      else Inl AttributeError)"

text \<open>\<open>__setattr__\<close>: the instance first, the wrapped sys-state object on AttributeError.\<close>

definition setattr_SysHijack ::
  "string \<Rightarrow> sysval \<Rightarrow> SysHijack \<times> world \<Rightarrow> SysHijack \<times> world" where
  "setattr_SysHijack attribute v hw =
     (case hw of (h, w) \<Rightarrow>
        (case slot_write attribute v h of
           Inr h' \<Rightarrow> (h', w)
         | Inl _ \<Rightarrow> (h, sys_setattr (thread_sys h w) attribute v w)))"

text \<open>
  \<open>__getattr__\<close>, which Python calls for a name that the normal lookup does not find.
  \<open>super(SysHijack, self).__getattr__\<close>: \<open>object\<close> has no \<open>__getattr__\<close>, so the lookup
  on the super object raises AttributeError. In the handler the builtin \<open>getattr\<close> is
  called with the sys-state object alone; \<open>builtin_getattr a names w\<close> is the builtin
  on the object at \<open>a\<close> with the further arguments \<open>names\<close>, which raises TypeError
  when there is none. \<open>.__getattr__(attribute)\<close> on its result would look up a method
  that plain objects do not have.
\<close>

definition super_getattr :: "string \<Rightarrow> error + sysval" where
  "super_getattr attribute = Inl AttributeError"

definition builtin_getattr :: "nat \<Rightarrow> string list \<Rightarrow> world \<Rightarrow> error + sysval" where
  "builtin_getattr a names w =
     (case names of [] \<Rightarrow> Inl TypeError | name # _ \<Rightarrow> sys_getattr a name w)"

definition getattr_SysHijack :: "SysHijack \<Rightarrow> string \<Rightarrow> world \<Rightarrow> error + sysval" where
  "getattr_SysHijack h attribute w =
     (case super_getattr attribute of
        Inr v \<Rightarrow> Inr v
      | Inl AttributeError \<Rightarrow>
          (case builtin_getattr (thread_sys h w) [] w of
             Inl e \<Rightarrow> Inl e
           | Inr v \<Rightarrow> Inl AttributeError)
      | Inl e \<Rightarrow> Inl e)"

text \<open>Reading a slot: its value, or \<open>__getattr__\<close> when it is unset.\<close>

definition slot_read ::
  "SysHijack \<Rightarrow> string \<Rightarrow> sysval option \<Rightarrow> world \<Rightarrow> error + sysval" where
  "slot_read h name slot w =
     (case slot of Some v \<Rightarrow> Inr v | None \<Rightarrow> getattr_SysHijack h name w)"

definition proxy_attr :: "SysHijack \<Rightarrow> string \<Rightarrow> world \<Rightarrow> error + sysval" where
  "proxy_attr h name w =
     (case slot_read h ''_io_proxy'' (io_proxy h) w of
        Inl e \<Rightarrow> Inl e
      | Inr proxy \<Rightarrow> attr_of proxy name)"

subsection \<open>The accessors\<close>

text \<open>\<open>current\<close> is \<open>Thread.currentThread()\<close>; \<open>is\<close> compares identities.\<close>

definition stdin :: "SysHijack \<Rightarrow> sysval \<Rightarrow> world \<Rightarrow> error + sysval" where
  "stdin h current w =
     (if current = target_thread h then proxy_attr h ''stdin'' w
      else slot_read h ''_original_stdin'' (original_stdin h) w)"

definition stdout :: "SysHijack \<Rightarrow> sysval \<Rightarrow> world \<Rightarrow> error + sysval" where
  "stdout h current w =
     (if current = target_thread h then proxy_attr h ''stdout'' w
      else slot_read h ''_original_stdout'' (original_stdout h) w)"

definition stderr :: "SysHijack \<Rightarrow> sysval \<Rightarrow> world \<Rightarrow> error + sysval" where
  "stderr h current w =
     (if current = target_thread h then proxy_attr h ''stderr'' w
      else slot_read h ''_original_stderr'' (original_stderr h) w)"

definition displayhook :: "SysHijack \<Rightarrow> sysval \<Rightarrow> world \<Rightarrow> error + sysval" where
  "displayhook h current w =
     (if current = target_thread h then proxy_attr h ''displayhook'' w
      else slot_read h ''_original_displayhook'' (original_displayhook h) w)"

subsection \<open>Install, restore, construction and finalization\<close>

text \<open>
  One statement \<open>self._thread_sys.name = value\<close>: the right-hand side is evaluated
  first and may raise. Statements run in sequence; an exception ends the sequence and
  keeps the assignments made before it.
\<close>

definition assign_sys ::
  "SysHijack \<Rightarrow> string \<Rightarrow> (world \<Rightarrow> error + sysval) \<Rightarrow> world \<Rightarrow> error option \<times> world" where
  "assign_sys h name rhs w =
     (case rhs w of
        Inl e \<Rightarrow> (Some e, w)
      | Inr v \<Rightarrow> (None, sys_setattr (thread_sys h w) name v w))"

definition and_then ::
  "('s \<Rightarrow> error option \<times> 's) \<Rightarrow> ('s \<Rightarrow> error option \<times> 's) \<Rightarrow> 's \<Rightarrow> error option \<times> 's" where
  "and_then f g s = (case f s of (Some e, s') \<Rightarrow> (Some e, s') | (None, s') \<Rightarrow> g s')"

definition install :: "SysHijack \<Rightarrow> world \<Rightarrow> error option \<times> world" where
  "install h =
     and_then (assign_sys h ''stdin'' (proxy_attr h ''stdin''))
    (and_then (assign_sys h ''stdout'' (proxy_attr h ''stdout''))
    (and_then (assign_sys h ''stderr'' (proxy_attr h ''stderr''))
              (assign_sys h ''displayhook'' (proxy_attr h ''displayhook''))))"

definition restore :: "SysHijack \<Rightarrow> world \<Rightarrow> error option \<times> world" where
  "restore h =
     and_then (assign_sys h ''stdin'' (slot_read h ''_original_stdin'' (original_stdin h)))
    (and_then (assign_sys h ''stdout'' (slot_read h ''_original_stdout'' (original_stdout h)))
    (and_then (assign_sys h ''stderr'' (slot_read h ''_original_stderr'' (original_stderr h)))
              (assign_sys h ''displayhook''
                 (slot_read h ''_original_displayhook'' (original_displayhook h)))))"

text \<open>\<open>__del__\<close> restores.\<close>

definition del_SysHijack :: "SysHijack \<Rightarrow> world \<Rightarrow> error option \<times> world" where
  "del_SysHijack h w = restore h w"

text \<open>
  One statement \<open>self.slot = self._thread_sys.name\<close> of the constructor: the read may
  raise AttributeError, the assignment goes through \<open>__setattr__\<close>.
\<close>

definition capture ::
  "string \<Rightarrow> string \<Rightarrow> SysHijack \<times> world \<Rightarrow> error option \<times> (SysHijack \<times> world)" where
  "capture slot name hw =
     (case hw of (h, w) \<Rightarrow>
        (case sys_getattr (thread_sys h w) name w of
           Inl e \<Rightarrow> (Some e, (h, w))
         | Inr v \<Rightarrow> (None, setattr_SysHijack slot v (h, w))))"

definition run_install :: "SysHijack \<times> world \<Rightarrow> error option \<times> (SysHijack \<times> world)" where
  "run_install hw = (case hw of (h, w) \<Rightarrow> (case install h w of (e, w') \<Rightarrow> (e, (h, w'))))"

text \<open>
  The names that module \<open>hijack\<close> binds: the three it imports and the class it
  defines. Evaluating any other module-level name raises NameError. \<open>ProxyIO\<close> is
  neither imported nor defined there.
\<close>

definition hijack_globals :: "string list" where
  "hijack_globals = [''getThreadState'', ''Thread'', ''datetime'', ''SysHijack'']"

definition global_name :: "string \<Rightarrow> error option" where
  "global_name n = (if n \<in> set hijack_globals then None else Some NameError)"

text \<open>The instance after \<open>self._target_thread = thread\<close>, the first statement.\<close>

definition fresh_SysHijack :: "sysval \<Rightarrow> SysHijack" where
  "fresh_SysHijack thread =
     \<lparr> target_thread = thread, io_proxy = None, original_stdin = None,
       original_stdout = None, original_stderr = None, original_displayhook = None \<rparr>"

text \<open>
  The statements of \<open>__init__\<close> from the assignment to \<open>_io_proxy\<close> on, for a value
  \<open>proxy\<close> of its right-hand side and the value \<open>now\<close> of \<open>datetime.now()\<close>. Every
  assignment to \<open>self\<close> goes through \<open>__setattr__\<close>. The result is the exception, if
  one was raised, next to the instance and the world as they are then.
\<close>

definition construct_with_proxy ::
  "sysval \<Rightarrow> sysval \<Rightarrow> SysHijack \<times> world \<Rightarrow> error option \<times> (SysHijack \<times> world)" where
  "construct_with_proxy proxy now hw =
     (let hw1 = setattr_SysHijack ''_io_proxy'' proxy hw;
          hw2 = setattr_SysHijack ''_init_time'' now hw1
      in and_then (capture ''_original_stdin'' ''stdin'')
        (and_then (capture ''_original_stdout'' ''stdout'')
        (and_then (capture ''_original_stderr'' ''stderr'')
        (and_then (capture ''_original_displayhook'' ''displayhook'')
                  run_install))) hw2)"

text \<open>
  \<open>__init__\<close>. The right-hand side \<open>ProxyIO(coupled_sys=self)\<close> of the second
  statement first evaluates the name \<open>ProxyIO\<close>; when that raises, the constructor
  ends there, with the target thread stored and nothing else done. \<open>proxy\<close> is the
  instance the call would return if the name were bound.
\<close>

definition init_SysHijack ::
  "sysval \<Rightarrow> sysval \<Rightarrow> sysval \<Rightarrow> world \<Rightarrow> error option \<times> (SysHijack \<times> world)" where
  "init_SysHijack thread proxy now w =
     (case global_name ''ProxyIO'' of
        Some e \<Rightarrow> (Some e, (fresh_SysHijack thread, w))
      | None \<Rightarrow> construct_with_proxy proxy now (fresh_SysHijack thread, w))"

subsection \<open>A concrete hijack\<close>

text \<open>
  One sys-state object shared by all threads, with the four endpoints and a \<open>path\<close>
  attribute; a proxy; and the instance for thread \<open>Obj 1\<close> with all its slots set, as
  the statements of the constructor from the assignment to \<open>_io_proxy\<close> on build it
  from that proxy.
\<close>

definition demo_world :: world where
  "demo_world = \<lparr> systemState = (\<lambda>_. 0),
                  sys_attrs = (\<lambda>_. [''stdin'' \<mapsto> Obj 10, ''stdout'' \<mapsto> Obj 11,
                                     ''stderr'' \<mapsto> Obj 12, ''displayhook'' \<mapsto> Obj 13,
                                     ''path'' \<mapsto> Obj 14]) \<rparr>"

definition demo_proxy :: sysval where
  "demo_proxy = ProxyIO (Obj 20) (Obj 21) (Obj 22) (Obj 23)"

definition demo_hijack :: "error option \<times> (SysHijack \<times> world)" where
  "demo_hijack =
     construct_with_proxy demo_proxy (Obj 99) (fresh_SysHijack (Obj 1), demo_world)"

section \<open>Properties of the breakpoint registry\<close>

subsection \<open>Evaluating the model\<close>

lemmas registry_defs =
  registered_bp_def new_Breakpoint_def initial_def add_bp_def enable_def ignore_def
  init_Breakpoint_def location_def next_id_def set_add_def Let_def

lemmas frame_defs =
  frame_at_def caller_scope_def frame_location_by_line_def frame_location_by_function_def

lemma py_int_run: "py_int ''run'' = None"
  by (simp add: py_int_def strip_def is_blank_def digit_val_def)

lemma location_TupleKey [simp]: "location b \<noteq> StrKey s" "StrKey s \<noteq> location b"
  by (simp_all add: location_def)

lemma location_update [simp]:
  "location (b\<lparr> enabled := en \<rparr>) = location b"
  "location (b\<lparr> hits := h \<rparr>) = location b"
  "location (b\<lparr> ignored := ig \<rparr>) = location b"
  by (simp_all add: location_def)

lemma function_first_line_update [simp]:
  "function_first_line (b\<lparr> hits := h \<rparr>) fr = function_first_line b fr"
  "function_first_line (b\<lparr> ignored := ig \<rparr>) fr = function_first_line b fr"
  by (simp_all add: function_first_line_def split: option.splits)

lemma trip_update [simp]:
  "trip (b\<lparr> hits := h \<rparr>) fr = trip b fr"
  "trip (b\<lparr> ignored := ig \<rparr>) fr = trip b fr"
  by (simp_all add: trip_def)

lemma condition_holds_update [simp]:
  "condition_holds fr (b\<lparr> hits := h \<rparr>) = condition_holds fr b"
  "condition_holds fr (b\<lparr> ignored := ig \<rparr>) = condition_holds fr b"
  by (simp_all add: condition_holds_def unconditional_def condition_text_def)

lemma bp_id_init_Breakpoint [simp]: "bp_id (init_Breakpoint fname loc temp cond nt) = None"
  by (simp add: init_Breakpoint_def Let_def)

subsection \<open>What the evaluator returns\<close>

text \<open>
  The candidates are the sum of two lookups. A lookup that finds its key gives a set,
  and the sum raises TypeError; the sum is a list, the empty one, only when both keys
  are absent. So \<open>relevant_breakpoints\<close> returns the empty set when no breakpoint was
  ever registered at the frame's line or function, raises TypeError otherwise, and
  never changes the registry.
\<close>

lemma relevant_breakpoints_cases:
  "relevant_breakpoints fr p st =
     (if break_locations st (frame_location_by_line fr) = None
         \<and> break_locations st (frame_location_by_function fr) = None
      then (Inr {}, st) else (Inl TypeError, st))"
  by (auto simp: relevant_breakpoints_def locations_get_def split: option.splits)

lemma relevant_breakpoints_state [simp]: "snd (relevant_breakpoints fr p st) = st"
  by (simp add: relevant_breakpoints_cases)

text \<open>
  When \<open>trip\<close> raises: on a function-keyed breakpoint in a frame of that name, with
  any exception of the first-line lookup but KeyError.
\<close>

lemma trip_raises:
  "(trip b fr = Inl e) =
     (function_name b \<noteq> [] \<and> function_name b = co_name fr
      \<and> function_first_line b fr = Inl e \<and> e \<noteq> KeyError)"
  by (auto simp: trip_def split: sum.splits error.splits)

subsection \<open>One pass of the loop\<close>

lemma bump_hits_keeps:
  "in_id_index (bump_hits r st) r' = in_id_index st r'"
  "in_location_index (bump_hits r st) r' = in_location_index st r'"
  "location (objects (bump_hits r st) r') = location (objects st r')"
  "temporary (objects (bump_hits r st) r') = temporary (objects st r')"
  "ignored (objects (bump_hits r st) r') = ignored (objects st r')"
  "enabled (objects (bump_hits r st) r') = enabled (objects st r')"
  "unconditional (objects (bump_hits r st) r') = unconditional (objects st r')"
  "condition_text (objects (bump_hits r st) r') = condition_text (objects st r')"
  by (auto simp: bump_hits_def in_id_index_def in_location_index_def
       unconditional_def condition_text_def split: option.splits)

lemma consume_ignore_keeps:
  "in_id_index (consume_ignore r p st) r' = in_id_index st r'"
  "in_location_index (consume_ignore r p st) r' = in_location_index st r'"
  by (auto simp: consume_ignore_def in_id_index_def in_location_index_def
       split: option.splits)

text \<open>
  The pass, by the outcome of the condition rather than by the two copies of the
  ignore-or-add code: the copy under \<open>try\<close> differs only in what becomes of an
  exception of \<open>_remove\<close>.
\<close>

lemma check_breakpoint_eq:
  "check_breakpoint fr p r (rel, st) =
     (if \<not> enabled (objects st r) p then (Inr rel, st)
      else case trip (objects st r) fr of
        Inl e \<Rightarrow> (Inl e, st)
      | Inr False \<Rightarrow> (Inr rel, st)
      | Inr True \<Rightarrow>
          (let st1 = bump_hits r st; b = objects st r in
           if condition_holds fr b then
             (if 0 < ignored b p then (Inr rel, consume_ignore r p st1)
              else if temporary b then
                (case fst (remove_bp r st1) of
                   None \<Rightarrow> (Inr (insert r rel), snd (remove_bp r st1))
                 | Some e \<Rightarrow> (if unconditional b then Inl e else Inr (insert r rel),
                             snd (remove_bp r st1)))
              else (Inr (insert r rel), st1))
           else if condition_raises fr b then (Inr (insert r rel), st1)
           else (Inr rel, st1)))"
proof -
  obtain e st2 where rm: "remove_bp r (bump_hits r st) = (e, st2)"
    by (cases "remove_bp r (bump_hits r st)")
  show ?thesis
  proof (cases "eval_cond fr (condition_text (objects st r))")
    case Raises
    then show ?thesis
      by (cases e)
        (simp_all add: check_breakpoint_def Let_def bump_hits_keeps rm condition_holds_def
          condition_raises_def split: sum.splits bool.splits)
  next
    case (Value v)
    then show ?thesis
      by (cases e; cases v)
        (simp_all add: check_breakpoint_def Let_def bump_hits_keeps rm condition_holds_def
          condition_raises_def split: sum.splits bool.splits)
  qed
qed

lemma check_breakpoint_result:
  "fst (check_breakpoint fr p r (rel, st)) = Inr res \<Longrightarrow> res = rel \<or> res = insert r rel"
  by (auto simp: check_breakpoint_eq Let_def
        split: sum.splits bool.splits option.splits if_splits)

lemma scan_adds_candidates_only:
  "fst (scan fr p rs (rel, st)) = Inr res \<Longrightarrow> res \<subseteq> rel \<union> set rs"
proof (induction rs arbitrary: rel st)
  case Nil
  then show ?case by simp
next
  case (Cons r rs)
  obtain out st' where c: "check_breakpoint fr p r (rel, st) = (out, st')"
    by (cases "check_breakpoint fr p r (rel, st)")
  show ?case
  proof (cases out)
    case (Inl e)
    with Cons.prems c show ?thesis by simp
  next
    case (Inr rel')
    with Cons.prems c have "fst (scan fr p rs (rel', st')) = Inr res" by simp
    from Cons.IH [OF this] have "res \<subseteq> rel' \<union> set rs" .
    moreover from c Inr have "rel' = rel \<or> rel' = insert r rel"
      using check_breakpoint_result [of fr p r rel st rel'] by simp
    ultimately show ?thesis by auto
  qed
qed

text \<open>\<open>_remove\<close> on an instance that is in both indices: no exception, and it is gone.\<close>

lemma remove_bp_registered:
  assumes "in_id_index st r" and "in_location_index st r"
  shows "fst (remove_bp r st) = None"
    and "\<not> in_id_index (snd (remove_bp r st)) r"
    and "\<not> in_location_index (snd (remove_bp r st)) r"
    and "\<not> enabled (objects (snd (remove_bp r st)) r) p'"
    and "\<exists>s. break_locations (snd (remove_bp r st)) (location (objects st r)) = Some s
           \<and> r \<notin> set s"
proof -
  from assms obtain i s where
    i: "bp_id (objects st r) = Some i" "instances st i = Some r"
    and s: "break_locations st (location (objects st r)) = Some s" "r \<in> set s"
    by (auto simp: in_id_index_def in_location_index_def split: option.splits)
  have eq: "remove_bp r st =
      (None, st\<lparr> objects := (objects st)(r := (objects st r)\<lparr> enabled := (\<lambda>_. False) \<rparr>),
                 instances := (instances st)(i := None),
                 break_locations := (break_locations st)(location (objects st r) \<mapsto> removeAll r s) \<rparr>)"
    using i s by (simp add: remove_bp_def Let_def set_remove_def)
  show "fst (remove_bp r st) = None" by (simp add: eq)
  show "\<not> in_id_index (snd (remove_bp r st)) r" using i by (simp add: eq in_id_index_def)
  show "\<not> in_location_index (snd (remove_bp r st)) r"
    by (simp add: eq in_location_index_def)
  show "\<not> enabled (objects (snd (remove_bp r st)) r) p'" by (simp add: eq)
  show "\<exists>s. break_locations (snd (remove_bp r st)) (location (objects st r)) = Some s
           \<and> r \<notin> set s" by (simp add: eq)
qed

subsection \<open>Invariants of the registry\<close>

lemma remove_bp_frame:
  "bp_id (objects (snd (remove_bp r st)) r') = bp_id (objects st r')"
  "id_counter (snd (remove_bp r st)) = id_counter st"
  "break_locations (snd (remove_bp r st)) (StrKey s) = break_locations st (StrKey s)"
  by (auto simp: remove_bp_def Let_def set_remove_def split: option.splits sum.splits)

lemma check_breakpoint_frame:
  "bp_id (objects (snd (check_breakpoint fr p r (rel, st))) r') = bp_id (objects st r')"
  "id_counter (snd (check_breakpoint fr p r (rel, st))) = id_counter st"
  "break_locations (snd (check_breakpoint fr p r (rel, st))) (StrKey s) = break_locations st (StrKey s)"
  by (simp_all add: check_breakpoint_eq Let_def remove_bp_frame bump_hits_def consume_ignore_def
       split: sum.splits bool.splits option.splits)

text \<open>
  In every reachable registry the counter is not negative, every id that was handed
  out is positive and at most the counter, and no string is a key of the location
  index.
\<close>

lemma reachable_invariant:
  "reachable st \<Longrightarrow>
     0 \<le> id_counter st
   \<and> (\<forall>r j. bp_id (objects st r) = Some j \<longrightarrow> 0 < j \<and> j \<le> id_counter st)
   \<and> (\<forall>s. break_locations st (StrKey s) = None)"
proof (induction rule: reachable.induct)
  case reach_initial
  show ?case by (simp add: initial_def blank_def)
next
  case (reach_new st fname loc temp cond nt)
  then show ?case by (simp add: new_Breakpoint_def)
next
  case (reach_add st r)
  then have c: "0 \<le> id_counter st"
    and ids: "\<And>r j. bp_id (objects st r) = Some j \<Longrightarrow> 0 < j \<and> j \<le> id_counter st"
    and keys: "\<And>s. break_locations st (StrKey s) = None"
    by blast+
  show ?case
  proof (cases "bp_id (objects st r)")
    case (Some i)
    then show ?thesis using c ids keys by (simp add: add_bp_def)
  next
    case None
    have "0 < j \<and> j \<le> id_counter st + 1"
      if "bp_id (objects (add_bp r st) r') = Some j" for r' j
    proof (cases "r' = r")
      case True
      with that None c show ?thesis
        by (simp add: add_bp_def Let_def next_id_def split: option.splits)
    next
      case False
      with that None have "bp_id (objects st r') = Some j"
        by (simp add: add_bp_def Let_def next_id_def split: option.splits)
      from ids [OF this] show ?thesis by simp
    qed
    moreover have "id_counter (add_bp r st) = id_counter st + 1"
      using None by (simp add: add_bp_def Let_def next_id_def split: option.splits)
    moreover have "break_locations (add_bp r st) (StrKey s) = None" for s
      using None keys by (simp add: add_bp_def Let_def next_id_def split: option.splits)
    ultimately show ?thesis using c by simp
  qed
next
  case (reach_remove st r)
  then show ?case by (simp add: remove_bp_frame)
next
  case (reach_enable st r p)
  then show ?case by (simp add: enable_def)
next
  case (reach_disable st r p)
  then show ?case by (simp add: disable_def)
next
  case (reach_ignore st r p n)
  then show ?case by (simp add: ignore_def)
next
  case (reach_check st r fr p relevant)
  then show ?case by (simp add: check_breakpoint_frame)
next
  case (reach_relevant st fr p)
  then show ?case by simp
qed

lemma allocated_add_bp [simp]: "allocated (add_bp r st) = allocated st"
  by (simp add: add_bp_def Let_def next_id_def split: option.splits)

lemma reachable_registered_bp: "reachable (registered_bp loc temp cond)"
proof -
  let ?st = "snd (new_Breakpoint ''a.py'' loc temp cond [] initial)"
  have new: "reachable ?st" by (rule reach_new [OF reach_initial])
  have alloc: "0 < allocated ?st" by (simp add: new_Breakpoint_def)
  have add: "reachable (add_bp 0 ?st)" by (rule reach_add [OF new alloc])
  have "reachable (enable 0 ''P1'' (add_bp 0 ?st))"
    by (rule reach_enable [OF add]) (simp add: alloc)
  then show ?thesis by (simp add: registered_bp_def new_Breakpoint_def initial_def)
qed

text \<open>A value of another type, such as a location tuple inside a list, is skipped.\<close>

lemma resolve_skips_other: "resolve_breakpoints st (Many [OtherVal]) = Inr []"
  by (simp add: resolve_breakpoints_def)


subsection \<open>The loop on a given list of candidates\<close>

text \<open>
  Given its candidates, the loop counts, suppresses and fires as follows. A trip that
  the party's ignore count suppresses is counted as a hit and takes one from the
  count; a trip with the count used up fires; a condition that raises fires, counts a
  hit and leaves the ignore count alone.
\<close>

lemma ignored_trip_suppressed:
  assumes "enabled (objects st r) p" and "trip (objects st r) fr = Inr True"
    and "condition_holds fr (objects st r)" and "0 < ignored (objects st r) p"
  shows "check_breakpoint fr p r (rel, st) = (Inr rel, consume_ignore r p (bump_hits r st))"
    and "hits (objects (consume_ignore r p (bump_hits r st)) r) = hits (objects st r) + 1"
    and "ignored (objects (consume_ignore r p (bump_hits r st)) r) p
           = ignored (objects st r) p - 1"
  using assms by (simp_all add: check_breakpoint_eq consume_ignore_def bump_hits_def)

lemma unignored_trip_fires:
  assumes "enabled (objects st r) p" and "trip (objects st r) fr = Inr True"
    and "condition_holds fr (objects st r)" and "\<not> 0 < ignored (objects st r) p"
    and "\<not> temporary (objects st r)"
  shows "check_breakpoint fr p r (rel, st) = (Inr (insert r rel), bump_hits r st)"
  using assms by (simp add: check_breakpoint_eq)

lemma raising_condition_fires:
  assumes "enabled (objects st r) p" and "trip (objects st r) fr = Inr True"
    and "condition_raises fr (objects st r)"
  shows "check_breakpoint fr p r (rel, st) = (Inr (insert r rel), bump_hits r st)"
    and "ignored (objects (bump_hits r st) r) = ignored (objects st r)"
    and "hits (objects (bump_hits r st) r) = hits (objects st r) + 1"
proof -
  from assms(3) have "\<not> condition_holds fr (objects st r)"
    by (simp add: condition_raises_def condition_holds_def)
  with assms show "check_breakpoint fr p r (rel, st) = (Inr (insert r rel), bump_hits r st)"
    by (simp add: check_breakpoint_eq)
qed (simp_all add: bump_hits_def)

text \<open>
  An ignore count of \<open>n\<close> is used up by \<open>n\<close> trips whose condition is absent or true:
  each of the \<open>n\<close> runs returns the empty set, and afterwards the breakpoint has \<open>n\<close>
  more hits and the count 0.
\<close>

lemma ignore_count_consumed:
  assumes "enabled (objects st r) p"
    and "\<forall>fr \<in> set frs. trip (objects st r) fr = Inr True \<and> condition_holds fr (objects st r)"
    and "ignored (objects st r) p = int (length frs)"
  shows "fst (trips frs p r st) = replicate (length frs) (Inr {})
       \<and> objects (snd (trips frs p r st)) r =
           (objects st r)\<lparr> hits := hits (objects st r) + int (length frs),
                            ignored := (ignored (objects st r))(p := 0) \<rparr>"
  using assms
proof (induction frs arbitrary: st)
  case Nil
  then have "(ignored (objects st r))(p := 0) = ignored (objects st r)"
    by (auto simp: fun_eq_iff)
  then show ?case by simp
next
  case (Cons fr frs)
  let ?st' = "consume_ignore r p (bump_hits r st)"
  from Cons.prems have step: "check_breakpoint fr p r ({}, st) = (Inr {}, ?st')"
    by (simp add: check_breakpoint_eq)
  have obj: "objects ?st' r =
      (objects st r)\<lparr> hits := hits (objects st r) + 1,
                       ignored := (ignored (objects st r))(p := int (length frs)) \<rparr>"
    using Cons.prems(3) by (simp add: consume_ignore_def bump_hits_def)
  have ih: "fst (trips frs p r ?st') = replicate (length frs) (Inr {})
       \<and> objects (snd (trips frs p r ?st')) r =
           (objects ?st' r)\<lparr> hits := hits (objects ?st' r) + int (length frs),
                            ignored := (ignored (objects ?st' r))(p := 0) \<rparr>"
    using Cons.prems by (intro Cons.IH) (simp_all add: obj)
  have same: "(objects ?st' r)\<lparr> hits := hits (objects ?st' r) + int (length frs),
                            ignored := (ignored (objects ?st' r))(p := 0) \<rparr>
      = (objects st r)\<lparr> hits := hits (objects st r) + int (length (fr # frs)),
                            ignored := (ignored (objects st r))(p := 0) \<rparr>"
    by (simp add: obj add.assoc)
  obtain outs st'' where t: "trips frs p r ?st' = (outs, st'')"
    by (cases "trips frs p r ?st'")
  from ih t have outs: "outs = replicate (length frs) (Inr {})"
    and o: "objects st'' r =
           (objects ?st' r)\<lparr> hits := hits (objects ?st' r) + int (length frs),
                            ignored := (ignored (objects ?st' r))(p := 0) \<rparr>"
    by simp_all
  have whole: "trips (fr # frs) p r st = (Inr {} # outs, st'')"
    by (simp add: step t)
  have "fst (trips (fr # frs) p r st) = replicate (length (fr # frs)) (Inr {})"
    unfolding whole outs by simp
  moreover have "objects (snd (trips (fr # frs) p r st)) r =
      (objects st r)\<lparr> hits := hits (objects st r) + int (length (fr # frs)),
                            ignored := (ignored (objects st r))(p := 0) \<rparr>"
    unfolding whole snd_conv o same ..
  ultimately show ?case by blast
qed

text \<open>
  So, with an ignore count of \<open>n\<close> and a breakpoint that is not temporary, \<open>n\<close> trips
  whose condition is absent or true return nothing and are counted, and the next one
  fires.
\<close>

lemma ignore_then_fire:
  assumes "enabled (objects st r) p"
    and "\<forall>fr \<in> set frs. trip (objects st r) fr = Inr True \<and> condition_holds fr (objects st r)"
    and "trip (objects st r) fr' = Inr True" and "condition_holds fr' (objects st r)"
    and "ignored (objects st r) p = int (length frs)"
    and "\<not> temporary (objects st r)"
  shows "fst (trips frs p r st) = replicate (length frs) (Inr {})"
    and "fst (scan fr' p [r] ({}, snd (trips frs p r st))) = Inr {r}"
    and "hits (objects (snd (scan fr' p [r] ({}, snd (trips frs p r st)))) r)
           = hits (objects st r) + int (length frs) + 1"
proof -
  let ?st' = "snd (trips frs p r st)"
  from ignore_count_consumed [OF assms(1,2,5)]
  have outs: "fst (trips frs p r st) = replicate (length frs) (Inr {})"
    and obj: "objects ?st' r =
           (objects st r)\<lparr> hits := hits (objects st r) + int (length frs),
                            ignored := (ignored (objects st r))(p := 0) \<rparr>"
    by blast+
  show "fst (trips frs p r st) = replicate (length frs) (Inr {})" by (rule outs)
  have pre: "enabled (objects ?st' r) p" "trip (objects ?st' r) fr' = Inr True"
    "condition_holds fr' (objects ?st' r)" "\<not> 0 < ignored (objects ?st' r) p"
    "\<not> temporary (objects ?st' r)"
    using assms(1,3,4,6) by (simp_all add: obj)
  have fire: "check_breakpoint fr' p r ({}, ?st') = (Inr {r}, bump_hits r ?st')"
    using pre by (simp add: check_breakpoint_eq)
  show "fst (scan fr' p [r] ({}, ?st')) = Inr {r}" by (simp add: fire)
  show "hits (objects (snd (scan fr' p [r] ({}, ?st'))) r)
           = hits (objects st r) + int (length frs) + 1"
    by (simp add: fire bump_hits_def obj)
qed

text \<open>
  One pass of the loop over a temporary breakpoint that is registered, enabled for the
  asking party and trips. If its condition is absent or
  true and the party's ignore count is positive, the trip is suppressed and the
  breakpoint stays in both indices. If its condition is absent or true and the count
  is used up, it is added to the result and removed from both indices in that pass:
  the set of its location no longer holds it, and no later run of the loop over that
  set returns it. If its condition raises, it is added to the result and stays in both
  indices.
\<close>

lemma loop_temporary_retirement:
  assumes "temporary (objects st r)"
    and "enabled (objects st r) p"
    and "trip (objects st r) fr = Inr True"
    and "in_id_index st r"
    and "in_location_index st r"
  shows
    "(condition_holds fr (objects st r) \<and> 0 < ignored (objects st r) p \<longrightarrow>
        fst (check_breakpoint fr p r (rel, st)) = Inr rel
      \<and> in_id_index (snd (check_breakpoint fr p r (rel, st))) r
      \<and> in_location_index (snd (check_breakpoint fr p r (rel, st))) r)
   \<and> (condition_holds fr (objects st r) \<and> \<not> 0 < ignored (objects st r) p \<longrightarrow>
        fst (check_breakpoint fr p r (rel, st)) = Inr (insert r rel)
      \<and> \<not> in_id_index (snd (check_breakpoint fr p r (rel, st))) r
      \<and> \<not> in_location_index (snd (check_breakpoint fr p r (rel, st))) r
      \<and> (\<exists>s. break_locations (snd (check_breakpoint fr p r (rel, st)))
                 (location (objects st r)) = Some s
             \<and> r \<notin> set s
             \<and> (\<forall>fr' p' res. fst (scan fr' p' s
                     ({}, snd (check_breakpoint fr p r (rel, st)))) = Inr res \<longrightarrow> r \<notin> res)))
   \<and> (condition_raises fr (objects st r) \<longrightarrow>
        fst (check_breakpoint fr p r (rel, st)) = Inr (insert r rel)
      \<and> in_id_index (snd (check_breakpoint fr p r (rel, st))) r
      \<and> in_location_index (snd (check_breakpoint fr p r (rel, st))) r)"
proof -
  let ?st1 = "bump_hits r st"
  have reg1: "in_id_index ?st1 r" "in_location_index ?st1 r"
    using assms(4,5) by (simp_all add: bump_hits_keeps)
  have suppressed: "check_breakpoint fr p r (rel, st) = (Inr rel, consume_ignore r p ?st1)"
    if "condition_holds fr (objects st r)" "0 < ignored (objects st r) p"
    using that assms(2,3) by (simp add: check_breakpoint_eq)
  have fired: "check_breakpoint fr p r (rel, st) = (Inr (insert r rel), snd (remove_bp r ?st1))"
    if "condition_holds fr (objects st r)" "\<not> 0 < ignored (objects st r) p"
    using that assms(1,2,3) remove_bp_registered(1) [OF reg1]
    by (simp add: check_breakpoint_eq)
  have raised: "check_breakpoint fr p r (rel, st) = (Inr (insert r rel), ?st1)"
    if "condition_raises fr (objects st r)"
  proof -
    from that have "\<not> condition_holds fr (objects st r)"
      by (simp add: condition_raises_def condition_holds_def)
    with that assms(2,3) show ?thesis by (simp add: check_breakpoint_eq)
  qed
  have gone: "\<exists>s. break_locations (snd (remove_bp r ?st1)) (location (objects st r)) = Some s
             \<and> r \<notin> set s
             \<and> (\<forall>fr' p' res. fst (scan fr' p' s ({}, snd (remove_bp r ?st1))) = Inr res
                   \<longrightarrow> r \<notin> res)"
  proof -
    from remove_bp_registered(5) [OF reg1] obtain s where
      s: "break_locations (snd (remove_bp r ?st1)) (location (objects st r)) = Some s" "r \<notin> set s"
      by (auto simp: bump_hits_keeps)
    have "r \<notin> res" if "fst (scan fr' p' s ({}, snd (remove_bp r ?st1))) = Inr res"
      for fr' p' res
      using scan_adds_candidates_only [OF that] s(2) by auto
    with s show ?thesis by blast
  qed
  show ?thesis
    using suppressed fired raised gone reg1 remove_bp_registered(2,3) [OF reg1]
    by (simp add: consume_ignore_keeps)
qed

text \<open>
  The scenario of a line breakpoint at \<open>(a.py, 10)\<close> enabled for \<open>P1\<close>, on the loop with
  the breakpoint as its one candidate: for \<open>P1\<close> it fires with one hit, for \<open>P2\<close> nothing
  fires and nothing changes.
\<close>

lemma scan_line_scenario:
  "fst (scan (frame_at 10 ''f'' None (Value True)) ''P1'' [0]
          ({}, registered_bp (IntArg 10) False None)) = Inr {0}
   \<and> hits (objects (snd (scan (frame_at 10 ''f'' None (Value True)) ''P1'' [0]
          ({}, registered_bp (IntArg 10) False None))) 0) = 1
   \<and> scan (frame_at 10 ''f'' None (Value True)) ''P2'' [0]
          ({}, registered_bp (IntArg 10) False None)
        = (Inr {}, registered_bp (IntArg 10) False None)"
  by (simp add: registry_defs frame_defs check_breakpoint_def trip_def unconditional_def
       bump_hits_def)

subsection \<open>The claims on breakpoints\<close>

text \<open>
  C1. The spec's scenario: a line breakpoint registered at \<open>(a.py, 10)\<close> and enabled for
  \<open>P1\<close>; \<open>relevant_breakpoints\<close> on a frame at \<open>(a.py, 10)\<close> for \<open>P1\<close> is to return the
  set with that breakpoint and leave \<open>hits = 1\<close>. In the code the lookup of the line key
  finds the set of the breakpoint, the lookup of the function key gives the default
  \<open>[]\<close>, and their sum raises TypeError before the loop starts: nothing is returned
  and the hit count stays \<open>0\<close>.
\<close>

theorem relevant_breakpoints_line_TypeError:
  "break_locations (registered_bp (IntArg 10) False None) (TupleKey ''a.py'' (Line 10)) = Some [0]
   \<and> enabled (objects (registered_bp (IntArg 10) False None) 0) ''P1''
   \<and> relevant_breakpoints (frame_at 10 ''f'' None (Value True)) ''P1''
        (registered_bp (IntArg 10) False None)
      = (Inl TypeError, registered_bp (IntArg 10) False None)
   \<and> hits (objects (registered_bp (IntArg 10) False None) 0) = 0"
  by (simp add: relevant_breakpoints_cases registry_defs frame_defs)

text \<open>
  C2, as amended. \<open>trip\<close> on a line-keyed breakpoint returns whether the frame's line
  is the stored line. On a function-keyed breakpoint it returns true exactly when the
  frame's function name is the stored name and the first line of the function found
  under that name in the calling scope is the frame's line. When the name is bound
  neither in the caller's locals nor in its globals (the lookup raises KeyError), it
  returns false.
\<close>

theorem trip_decides:
  "(function_name b = [] \<longrightarrow> trip b fr = Inr (line_number b = Some (f_lineno fr)))
   \<and> (function_name b \<noteq> [] \<longrightarrow>
        (trip b fr = Inr True) =
          (function_name b = co_name fr \<and> function_first_line b fr = Inr (f_lineno fr)))
   \<and> (function_name b \<noteq> [] \<and> function_first_line b fr = Inl KeyError \<longrightarrow>
        trip b fr = Inr False)"
  by (auto simp: trip_def split: sum.splits error.splits)

text \<open>
  C2, witness: a line breakpoint at line 10 on lines 10 and 11; a breakpoint on
  function \<open>run\<close>, whose first line is 10, on lines 10 and 11 of \<open>run\<close>, and with \<open>run\<close>
  unbound in the calling scope.
\<close>

theorem trip_decides_witness:
  "trip (init_Breakpoint ''a.py'' (IntArg 10) False None []) (frame_at 10 ''f'' None (Value True)) = Inr True
   \<and> trip (init_Breakpoint ''a.py'' (IntArg 10) False None []) (frame_at 11 ''f'' None (Value True)) = Inr False
   \<and> trip (init_Breakpoint ''a.py'' (StrArg ''run'') False None [])
        (frame_at 10 ''run'' (Some (caller_scope [''run'' \<mapsto> Function 10])) (Value True)) = Inr True
   \<and> trip (init_Breakpoint ''a.py'' (StrArg ''run'') False None [])
        (frame_at 11 ''run'' (Some (caller_scope [''run'' \<mapsto> Function 10])) (Value True)) \<noteq> Inr True
   \<and> trip (init_Breakpoint ''a.py'' (StrArg ''run'') False None [])
        (frame_at 10 ''run'' (Some (caller_scope Map.empty)) (Value True)) = Inr False"
proof -
  let ?line = "init_Breakpoint ''a.py'' (IntArg 10) False None []"
  let ?run = "init_Breakpoint ''a.py'' (StrArg ''run'') False None []"
  have l: "function_name ?line = []" "line_number ?line = Some 10"
    by (simp_all add: init_Breakpoint_def)
  have f: "function_name ?run = ''run''" "function_name ?run \<noteq> []"
    by (simp_all add: init_Breakpoint_def py_int_run)
  have r1: "function_first_line ?run (frame_at 10 ''run'' (Some (caller_scope [''run'' \<mapsto> Function 10])) (Value True)) = Inr 10"
    and r2: "function_first_line ?run (frame_at 11 ''run'' (Some (caller_scope [''run'' \<mapsto> Function 10])) (Value True)) = Inr 10"
    and r3: "function_first_line ?run (frame_at 10 ''run'' (Some (caller_scope Map.empty)) (Value True)) = Inl KeyError"
    by (simp_all add: function_first_line_def f frame_defs)
  have fr: "f_lineno (frame_at n name caller outcome) = n"
    "co_name (frame_at n name caller outcome) = name" for n name caller outcome
    by (simp_all add: frame_at_def)
  from trip_decides [of ?line "frame_at 10 ''f'' None (Value True)"]
  have a: "trip ?line (frame_at 10 ''f'' None (Value True)) = Inr True"
    by (simp add: l fr)
  from trip_decides [of ?line "frame_at 11 ''f'' None (Value True)"]
  have b: "trip ?line (frame_at 11 ''f'' None (Value True)) = Inr False"
    by (simp add: l fr)
  from trip_decides [of ?run "frame_at 10 ''run'' (Some (caller_scope [''run'' \<mapsto> Function 10])) (Value True)"]
  have c: "trip ?run (frame_at 10 ''run'' (Some (caller_scope [''run'' \<mapsto> Function 10])) (Value True)) = Inr True"
    by (simp add: f r1 fr)
  from trip_decides [of ?run "frame_at 11 ''run'' (Some (caller_scope [''run'' \<mapsto> Function 10])) (Value True)"]
  have d: "trip ?run (frame_at 11 ''run'' (Some (caller_scope [''run'' \<mapsto> Function 10])) (Value True)) \<noteq> Inr True"
    by (simp add: f r2 fr)
  from trip_decides [of ?run "frame_at 10 ''run'' (Some (caller_scope Map.empty)) (Value True)"]
  have e: "trip ?run (frame_at 10 ''run'' (Some (caller_scope Map.empty)) (Value True)) = Inr False"
    by (simp add: f r3)
  from a b c d e show ?thesis by blast
qed

text \<open>
  C2, counterexample to "whenever resolving the first line fails, trip returns false":
  a breakpoint on function \<open>run\<close> and the outermost frame of a thread running \<open>run\<close>.
  The frame has no caller, reading \<open>f_back.f_locals\<close> raises AttributeError, the
  handler of \<open>trip\<close> catches KeyError only, and \<open>trip\<close> raises.
\<close>

theorem trip_outermost_frame_raises:
  "function_name (init_Breakpoint ''a.py'' (StrArg ''run'') False None []) = ''run''
   \<and> function_first_line (init_Breakpoint ''a.py'' (StrArg ''run'') False None [])
        (frame_at 10 ''run'' None (Value True)) = Inl AttributeError
   \<and> trip (init_Breakpoint ''a.py'' (StrArg ''run'') False None [])
        (frame_at 10 ''run'' None (Value True)) = Inl AttributeError"
  by (simp add: init_Breakpoint_def py_int_run trip_def function_first_line_def frame_defs)

text \<open>
  C3. A temporary breakpoint, registered at \<open>(a.py, 10)\<close> and enabled for \<open>P1\<close>, with
  no condition and no ignore count, is to fire at the first match of its position and
  to be removed from the registry. \<open>relevant_breakpoints\<close> on a frame at that position
  raises TypeError at the sum of the two lookups, as in C1: the breakpoint does not
  fire, and it stays in the id index and in the set of its location, at this call and
  at every later one.
\<close>

theorem relevant_breakpoints_temporary_TypeError:
  "temporary (objects (registered_bp (IntArg 10) True None) 0)
   \<and> relevant_breakpoints (frame_at 10 ''f'' None (Value True)) ''P1''
        (registered_bp (IntArg 10) True None)
      = (Inl TypeError, registered_bp (IntArg 10) True None)
   \<and> in_id_index (registered_bp (IntArg 10) True None) 0
   \<and> in_location_index (registered_bp (IntArg 10) True None) 0"
  by (simp add: relevant_breakpoints_cases registry_defs frame_defs in_id_index_def
       in_location_index_def)

text \<open>
  C4. After \<open>ignore(P1, 2)\<close> on a registered, enabled line breakpoint, the next two
  trips are to be suppressed and the third is to be in the set that
  \<open>relevant_breakpoints\<close> returns. The call raises TypeError at the sum of the two
  lookups, as in C1, at every trip: no hit is counted, the ignore count stays 2 and
  no set is returned.
\<close>

theorem relevant_breakpoints_ignore_TypeError:
  "ignored (objects (ignore 0 ''P1'' 2 (registered_bp (IntArg 10) False None)) 0) ''P1'' = 2
   \<and> relevant_breakpoints (frame_at 10 ''f'' None (Value True)) ''P1''
        (ignore 0 ''P1'' 2 (registered_bp (IntArg 10) False None))
      = (Inl TypeError, ignore 0 ''P1'' 2 (registered_bp (IntArg 10) False None))"
  by (simp add: relevant_breakpoints_cases registry_defs frame_defs)

text \<open>
  C5. A registered, enabled line breakpoint with the condition \<open>1/0\<close>, whose
  evaluation raises, is to be in the set that \<open>relevant_breakpoints\<close> returns. The call
  raises TypeError at the sum of the two lookups, as in C1, before any condition is
  evaluated, and returns no set.
\<close>

theorem relevant_breakpoints_raising_TypeError:
  "condition (objects (registered_bp (IntArg 10) False (Some ''1/0'')) 0) = Some ''1/0''
   \<and> eval_cond (frame_at 10 ''f'' None Raises) ''1/0'' = Raises
   \<and> relevant_breakpoints (frame_at 10 ''f'' None Raises) ''P1''
        (registered_bp (IntArg 10) False (Some ''1/0''))
      = (Inl TypeError, registered_bp (IntArg 10) False (Some ''1/0''))"
  by (simp add: relevant_breakpoints_cases registry_defs frame_defs)




text \<open>
  C7. In a reachable registry, \<open>_add\<close> on an instance without id gives it the id
  \<open>_id_counter + 1\<close>, which is greater than every id handed out before, leaves the ids
  of all other instances as they are, and puts the instance into the id index and
  into the set of its location; a second \<open>_add\<close> changes nothing. \<open>_add\<close> on an
  instance that has an id changes nothing.
\<close>

theorem add_bp_registers_once:
  assumes "reachable st"
  shows "(bp_id (objects st r) = None \<longrightarrow>
            bp_id (objects (add_bp r st) r) = Some (id_counter st + 1)
          \<and> id_counter (add_bp r st) = id_counter st + 1
          \<and> (\<forall>r' j. bp_id (objects st r') = Some j \<longrightarrow>
                j < id_counter st + 1 \<and> bp_id (objects (add_bp r st) r') = Some j)
          \<and> in_id_index (add_bp r st) r
          \<and> in_location_index (add_bp r st) r
          \<and> add_bp r (add_bp r st) = add_bp r st)
       \<and> (bp_id (objects st r) \<noteq> None \<longrightarrow> add_bp r st = st)"
proof -
  from reachable_invariant [OF assms]
  have ids: "\<And>r j. bp_id (objects st r) = Some j \<Longrightarrow> j \<le> id_counter st"
    by blast
  have unset: "bp_id (objects (add_bp r st) r) = Some (id_counter st + 1)
          \<and> id_counter (add_bp r st) = id_counter st + 1
          \<and> (\<forall>r' j. bp_id (objects st r') = Some j \<longrightarrow>
                j < id_counter st + 1 \<and> bp_id (objects (add_bp r st) r') = Some j)
          \<and> in_id_index (add_bp r st) r
          \<and> in_location_index (add_bp r st) r
          \<and> add_bp r (add_bp r st) = add_bp r st"
    if none: "bp_id (objects st r) = None"
  proof -
    have 1: "bp_id (objects (add_bp r st) r) = Some (id_counter st + 1)"
      and 2: "id_counter (add_bp r st) = id_counter st + 1"
      and 3: "instances (add_bp r st) (id_counter st + 1) = Some r"
      and 4: "location (objects (add_bp r st) r) = location (objects st r)"
      using none by (simp_all add: add_bp_def Let_def next_id_def location_def split: option.splits)
    have 5: "\<exists>s. break_locations (add_bp r st) (location (objects st r)) = Some s \<and> r \<in> set s"
      using none by (simp add: add_bp_def Let_def next_id_def set_add_def split: option.splits)
    have 6: "j < id_counter st + 1 \<and> bp_id (objects (add_bp r st) r') = Some j"
      if "bp_id (objects st r') = Some j" for r' j
    proof -
      from that none have "r' \<noteq> r" by auto
      with that none have "bp_id (objects (add_bp r st) r') = Some j"
        by (simp add: add_bp_def Let_def next_id_def split: option.splits)
      with ids [OF that] show ?thesis by simp
    qed
    have 7: "add_bp r (add_bp r st) = add_bp r st"
      using 1 by (simp add: add_bp_def [of r "add_bp r st"])
    from 1 3 have "in_id_index (add_bp r st) r" by (simp add: in_id_index_def)
    moreover from 4 5 have "in_location_index (add_bp r st) r"
      by (auto simp: in_location_index_def)
    ultimately show ?thesis using 1 2 6 7 by blast
  qed
  have set: "add_bp r st = st" if "bp_id (objects st r) \<noteq> None"
    using that by (auto simp: add_bp_def)
  from unset set show ?thesis by blast
qed

text \<open>
  C7, witness: a registry holding a registered breakpoint, of id 1, and a detached
  one. Registering the detached one gives it id 2 and keeps id 1; registering either
  again changes nothing.
\<close>

theorem add_bp_registers_once_witness:
  "reachable second_bp
   \<and> bp_id (objects (add_bp 1 second_bp) 1) = Some 2
   \<and> bp_id (objects (add_bp 1 second_bp) 0) = Some 1
   \<and> in_id_index (add_bp 1 second_bp) 1
   \<and> in_location_index (add_bp 1 second_bp) 1
   \<and> add_bp 1 (add_bp 1 second_bp) = add_bp 1 second_bp
   \<and> add_bp 0 second_bp = second_bp"
proof -
  have reach: "reachable second_bp"
    unfolding second_bp_def by (rule reach_new [OF reachable_registered_bp])
  have facts: "bp_id (objects second_bp 1) = None" "bp_id (objects second_bp 0) = Some 1"
    "id_counter second_bp = 1"
    by (simp_all add: second_bp_def registry_defs)
  from add_bp_registers_once [OF reach, of 1] facts(1)
  have new: "bp_id (objects (add_bp 1 second_bp) 1) = Some (id_counter second_bp + 1)"
    and old: "\<forall>r' j. bp_id (objects second_bp r') = Some j \<longrightarrow>
                j < id_counter second_bp + 1 \<and> bp_id (objects (add_bp 1 second_bp) r') = Some j"
    and idx: "in_id_index (add_bp 1 second_bp) 1" "in_location_index (add_bp 1 second_bp) 1"
    and twice: "add_bp 1 (add_bp 1 second_bp) = add_bp 1 second_bp"
    by blast+
  from new facts(3) have a: "bp_id (objects (add_bp 1 second_bp) 1) = Some 2" by simp
  from old facts(2) have b: "bp_id (objects (add_bp 1 second_bp) 0) = Some 1" by blast
  from add_bp_registers_once [OF reach, of 0] facts(2)
  have c: "add_bp 0 second_bp = second_bp" by simp
  from reach a b idx twice c show ?thesis by blast
qed

section \<open>Properties of the stream hijacker\<close>

subsection \<open>Attribute fallback\<close>

text \<open>
  \<open>__getattr__\<close> raises TypeError for every name: the lookup on the super object
  fails, and the handler calls \<open>getattr\<close> with one argument.
\<close>

lemma getattr_SysHijack_TypeError: "getattr_SysHijack h attribute w = Inl TypeError"
  by (simp add: getattr_SysHijack_def super_getattr_def builtin_getattr_def)

text \<open>
  \<open>__setattr__\<close> forwards: a name that cannot be set on the instance is set on the
  sys-state object of the target thread, and the instance is unchanged.
\<close>

lemma setattr_SysHijack_forwards:
  assumes "slot_write name v h = Inl AttributeError"
  shows "setattr_SysHijack name v (h, w) = (h, sys_setattr (thread_sys h w) name v w)"
    and "sys_getattr (thread_sys h w) name (snd (setattr_SysHijack name v (h, w))) = Inr v"
  using assms by (simp_all add: setattr_SysHijack_def sys_getattr_def sys_setattr_def)

subsection \<open>Construction, accessors and restore\<close>

text \<open>
  The constructor raises NameError for every thread, and leaves the world as it was.
\<close>

lemma init_SysHijack_NameError:
  "init_SysHijack thread proxy now w = (Some NameError, (fresh_SysHijack thread, w))"
  by (simp add: init_SysHijack_def global_name_def hijack_globals_def)

text \<open>
  The rest of the section is about the statements of the constructor from the
  assignment to \<open>_io_proxy\<close> on, run with a proxy: what they build when they succeed,
  and what the accessors and \<open>_restore\<close> do on such an instance.
\<close>

lemma construct_with_proxy_success:
  assumes "construct_with_proxy (ProxyIO pi po pe pd) now (fresh_SysHijack thread, w)
             = (None, (h, w1))"
  shows "\<exists>o1 o2 o3 o4.
           sys_attrs w (systemState w thread) ''stdin'' = Some o1
         \<and> sys_attrs w (systemState w thread) ''stdout'' = Some o2
         \<and> sys_attrs w (systemState w thread) ''stderr'' = Some o3
         \<and> sys_attrs w (systemState w thread) ''displayhook'' = Some o4
         \<and> h = \<lparr> target_thread = thread, io_proxy = Some (ProxyIO pi po pe pd),
                 original_stdin = Some o1, original_stdout = Some o2,
                 original_stderr = Some o3, original_displayhook = Some o4 \<rparr>
         \<and> systemState w1 = systemState w
         \<and> sys_attrs w1 (systemState w thread) =
             (sys_attrs w (systemState w thread))
               (''_init_time'' \<mapsto> now, ''stdin'' \<mapsto> pi, ''stdout'' \<mapsto> po,
                ''stderr'' \<mapsto> pe, ''displayhook'' \<mapsto> pd)"
  using assms
  apply (simp add: construct_with_proxy_def fresh_SysHijack_def Let_def setattr_SysHijack_def
     slot_write_def
     and_then_def capture_def run_install_def install_def assign_sys_def thread_sys_def
     sys_setattr_def sys_getattr_def proxy_attr_def slot_read_def
     split: option.splits sum.splits prod.splits if_splits)
  apply auto
  done

lemma restore_set:
  assumes "original_stdin h = Some o1" "original_stdout h = Some o2"
          "original_stderr h = Some o3" "original_displayhook h = Some o4"
  shows "restore h x =
           (None, x\<lparr> sys_attrs := (sys_attrs x)(thread_sys h x :=
                      (sys_attrs x (thread_sys h x))
                        (''stdin'' \<mapsto> o1, ''stdout'' \<mapsto> o2, ''stderr'' \<mapsto> o3,
                         ''displayhook'' \<mapsto> o4)) \<rparr>)"
  using assms
  by (simp add: restore_def and_then_def assign_sys_def slot_read_def sys_setattr_def
       thread_sys_def)

lemma accessors_set:
  assumes "io_proxy h = Some (ProxyIO pi po pe pd)"
          "original_stdin h = Some o1" "original_stdout h = Some o2"
          "original_stderr h = Some o3" "original_displayhook h = Some o4"
  shows "stdin h current w = Inr (if current = target_thread h then pi else o1)"
        "stdout h current w = Inr (if current = target_thread h then po else o2)"
        "stderr h current w = Inr (if current = target_thread h then pe else o3)"
        "displayhook h current w = Inr (if current = target_thread h then pd else o4)"
  using assms
  by (simp_all add: stdin_def stdout_def stderr_def displayhook_def proxy_attr_def
        slot_read_def)

lemma dispose_repeated:
  assumes "original_stdin h = Some o1" "original_stdout h = Some o2"
          "original_stderr h = Some o3" "original_displayhook h = Some o4"
  shows "systemState (((\<lambda>x. snd (del_SysHijack h x)) ^^ k) x) = systemState x
       \<and> (0 < k \<longrightarrow>
            sys_attrs (((\<lambda>x. snd (del_SysHijack h x)) ^^ k) x) (thread_sys h x) ''stdin'' = Some o1
          \<and> sys_attrs (((\<lambda>x. snd (del_SysHijack h x)) ^^ k) x) (thread_sys h x) ''stdout'' = Some o2
          \<and> sys_attrs (((\<lambda>x. snd (del_SysHijack h x)) ^^ k) x) (thread_sys h x) ''stderr'' = Some o3
          \<and> sys_attrs (((\<lambda>x. snd (del_SysHijack h x)) ^^ k) x) (thread_sys h x) ''displayhook'' = Some o4)"
proof (induction k)
  case 0
  show ?case by simp
next
  case (Suc k)
  then show ?case
    by (simp add: del_SysHijack_def restore_set [OF assms] thread_sys_def)
qed

lemma demo_hijack_ok: "fst demo_hijack = None"
  by (simp add: demo_hijack_def demo_world_def demo_proxy_def construct_with_proxy_def
     fresh_SysHijack_def Let_def
     setattr_SysHijack_def slot_write_def and_then_def capture_def run_install_def
     install_def assign_sys_def thread_sys_def sys_setattr_def sys_getattr_def proxy_attr_def
     slot_read_def)

text \<open>
  Let those statements succeed for a thread, with the proxy endpoints \<open>pi\<close>, \<open>po\<close>,
  \<open>pe\<close>, \<open>pd\<close>. Then the sys-state object of the thread held four endpoints before, the
  originals, and: each accessor returns the proxy endpoint when the calling thread is
  the target thread and the original otherwise; the sys-state object of the thread
  holds the proxy endpoints; after one or more disposals, by \<open>__del__\<close>, the
  sys-state object of the thread holds the four originals; \<open>_restore\<close> and \<open>__del__\<close>
  never raise, and a second restore changes nothing.
\<close>

lemma constructed_streams:
  assumes "construct_with_proxy (ProxyIO pi po pe pd) now (fresh_SysHijack thread, w)
             = (None, (h, w1))"
  shows "\<exists>o1 o2 o3 o4.
           sys_getattr (systemState w thread) ''stdin'' w = Inr o1
         \<and> sys_getattr (systemState w thread) ''stdout'' w = Inr o2
         \<and> sys_getattr (systemState w thread) ''stderr'' w = Inr o3
         \<and> sys_getattr (systemState w thread) ''displayhook'' w = Inr o4
         \<and> (\<forall>current w'.
               stdin h current w' = Inr (if current = thread then pi else o1)
             \<and> stdout h current w' = Inr (if current = thread then po else o2)
             \<and> stderr h current w' = Inr (if current = thread then pe else o3)
             \<and> displayhook h current w' = Inr (if current = thread then pd else o4))
         \<and> sys_getattr (systemState w thread) ''stdin'' w1 = Inr pi
         \<and> sys_getattr (systemState w thread) ''stdout'' w1 = Inr po
         \<and> sys_getattr (systemState w thread) ''stderr'' w1 = Inr pe
         \<and> sys_getattr (systemState w thread) ''displayhook'' w1 = Inr pd
         \<and> (\<forall>k. 0 < k \<longrightarrow>
               sys_getattr (systemState w thread) ''stdin''
                 (((\<lambda>x. snd (del_SysHijack h x)) ^^ k) w1) = Inr o1
             \<and> sys_getattr (systemState w thread) ''stdout''
                 (((\<lambda>x. snd (del_SysHijack h x)) ^^ k) w1) = Inr o2
             \<and> sys_getattr (systemState w thread) ''stderr''
                 (((\<lambda>x. snd (del_SysHijack h x)) ^^ k) w1) = Inr o3
             \<and> sys_getattr (systemState w thread) ''displayhook''
                 (((\<lambda>x. snd (del_SysHijack h x)) ^^ k) w1) = Inr o4)
         \<and> (\<forall>x. fst (restore h x) = None \<and> fst (del_SysHijack h x) = None
                \<and> restore h (snd (restore h x)) = (None, snd (restore h x)))"
proof -
  from construct_with_proxy_success [OF assms] obtain o1 o2 o3 o4 where
    orig: "sys_attrs w (systemState w thread) ''stdin'' = Some o1"
          "sys_attrs w (systemState w thread) ''stdout'' = Some o2"
          "sys_attrs w (systemState w thread) ''stderr'' = Some o3"
          "sys_attrs w (systemState w thread) ''displayhook'' = Some o4"
    and h: "h = \<lparr> target_thread = thread, io_proxy = Some (ProxyIO pi po pe pd),
                 original_stdin = Some o1, original_stdout = Some o2,
                 original_stderr = Some o3, original_displayhook = Some o4 \<rparr>"
    and sys: "systemState w1 = systemState w"
    and installed: "sys_attrs w1 (systemState w thread) =
             (sys_attrs w (systemState w thread))
               (''_init_time'' \<mapsto> now, ''stdin'' \<mapsto> pi, ''stdout'' \<mapsto> po,
                ''stderr'' \<mapsto> pe, ''displayhook'' \<mapsto> pd)"
    by blast
  have inst: "sys_getattr (systemState w thread) ''stdin'' w1 = Inr pi"
    "sys_getattr (systemState w thread) ''stdout'' w1 = Inr po"
    "sys_getattr (systemState w thread) ''stderr'' w1 = Inr pe"
    "sys_getattr (systemState w thread) ''displayhook'' w1 = Inr pd"
    by (simp_all add: sys_getattr_def installed)
  have slots: "io_proxy h = Some (ProxyIO pi po pe pd)" "target_thread h = thread"
    "original_stdin h = Some o1" "original_stdout h = Some o2"
    "original_stderr h = Some o3" "original_displayhook h = Some o4"
    by (simp_all add: h)
  have addr: "thread_sys h w1 = systemState w thread"
    by (simp add: thread_sys_def slots sys)
  have pre: "sys_getattr (systemState w thread) ''stdin'' w = Inr o1"
    "sys_getattr (systemState w thread) ''stdout'' w = Inr o2"
    "sys_getattr (systemState w thread) ''stderr'' w = Inr o3"
    "sys_getattr (systemState w thread) ''displayhook'' w = Inr o4"
    by (simp_all add: sys_getattr_def orig)
  have acc: "\<forall>current w'.
               stdin h current w' = Inr (if current = thread then pi else o1)
             \<and> stdout h current w' = Inr (if current = thread then po else o2)
             \<and> stderr h current w' = Inr (if current = thread then pe else o3)
             \<and> displayhook h current w' = Inr (if current = thread then pd else o4)"
    using accessors_set [OF slots(1) slots(3-6)] by (simp add: slots(2))
  have rep: "\<forall>k. 0 < k \<longrightarrow>
               sys_getattr (systemState w thread) ''stdin''
                 (((\<lambda>x. snd (del_SysHijack h x)) ^^ k) w1) = Inr o1
             \<and> sys_getattr (systemState w thread) ''stdout''
                 (((\<lambda>x. snd (del_SysHijack h x)) ^^ k) w1) = Inr o2
             \<and> sys_getattr (systemState w thread) ''stderr''
                 (((\<lambda>x. snd (del_SysHijack h x)) ^^ k) w1) = Inr o3
             \<and> sys_getattr (systemState w thread) ''displayhook''
                 (((\<lambda>x. snd (del_SysHijack h x)) ^^ k) w1) = Inr o4"
    using dispose_repeated [OF slots(3-6), of _ w1] by (simp add: sys_getattr_def addr)
  have idem: "\<forall>x. fst (restore h x) = None \<and> fst (del_SysHijack h x) = None
                \<and> restore h (snd (restore h x)) = (None, snd (restore h x))"
    by (simp add: del_SysHijack_def restore_set [OF slots(3-6)] thread_sys_def)
  from pre acc inst rep idem show ?thesis by blast
qed

text \<open>
  \<open>_init_time\<close> is no slot: assigning it on the instance raises AttributeError, and
  those statements, whether they then succeed or raise, leave the time stamp as the
  attribute \<open>_init_time\<close> of the target thread's sys-state object.
\<close>

lemma construct_writes_init_time:
  "slot_write ''_init_time'' now h = Inl AttributeError
   \<and> sys_attrs (snd (snd (construct_with_proxy proxy now (fresh_SysHijack thread, w))))
       (systemState w thread) ''_init_time'' = Some now"
  by (simp add: slot_write_def construct_with_proxy_def fresh_SysHijack_def Let_def
     setattr_SysHijack_def and_then_def capture_def run_install_def install_def assign_sys_def
     thread_sys_def sys_setattr_def sys_getattr_def split: option.splits sum.splits prod.splits)

subsection \<open>The claims on the hijacker\<close>

text \<open>
  C8. After \<open>SysHijack(thread)\<close> the accessors are to return the proxy endpoints to the
  target thread and the captured originals to other threads. The constructor raises
  NameError at its second statement, where the name \<open>ProxyIO\<close> is evaluated: no
  instance is built, nothing is captured or installed, and the sys-state object of
  the target thread holds its original \<open>stdin\<close> as before.
\<close>

theorem SysHijack_constructor_NameError:
  "init_SysHijack (Obj 1) demo_proxy (Obj 99) demo_world
     = (Some NameError, (fresh_SysHijack (Obj 1), demo_world))
   \<and> io_proxy (fresh_SysHijack (Obj 1)) = None
   \<and> original_stdin (fresh_SysHijack (Obj 1)) = None
   \<and> sys_getattr (systemState demo_world (Obj 1)) ''stdin''
        (snd (snd (init_SysHijack (Obj 1) demo_proxy (Obj 99) demo_world))) = Inr (Obj 10)"
  by (simp add: init_SysHijack_def global_name_def hijack_globals_def fresh_SysHijack_def
       sys_getattr_def demo_world_def)

text \<open>
  C9. Reading an attribute that is no member of SysHijack is to return the attribute
  of the target thread's sys-state object. On the instance for thread \<open>Obj 1\<close> the
  sys-state object has the attribute \<open>path\<close>, but reading \<open>path\<close> through the hijacker
  raises TypeError, as \<open>__getattr__\<close> does for every instance and name. (Writing
  does forward, by \<open>setattr_SysHijack_forwards\<close>.)
\<close>

theorem getattr_forwarding_fails:
  "fst demo_hijack = None
   \<and> sys_getattr (thread_sys (fst (snd demo_hijack)) (snd (snd demo_hijack))) ''path''
       (snd (snd demo_hijack)) = Inr (Obj 14)
   \<and> getattr_SysHijack (fst (snd demo_hijack)) ''path'' (snd (snd demo_hijack)) = Inl TypeError"
  by (simp add: getattr_SysHijack_TypeError demo_hijack_def demo_world_def demo_proxy_def
     construct_with_proxy_def fresh_SysHijack_def Let_def setattr_SysHijack_def
     slot_write_def and_then_def capture_def run_install_def install_def assign_sys_def thread_sys_def sys_setattr_def sys_getattr_def
     proxy_attr_def slot_read_def)

text \<open>
  C10. Constructing a SysHijack is to leave the time stamp as the attribute
  \<open>_init_time\<close> of the target thread's sys-state object. The constructor raises
  NameError at its second statement, before the assignment of \<open>_init_time\<close>: the
  sys-state object has no such attribute before the call and none after it.
\<close>

theorem SysHijack_constructor_no_init_time:
  "sys_attrs demo_world (systemState demo_world (Obj 1)) ''_init_time'' = None
   \<and> fst (init_SysHijack (Obj 1) demo_proxy (Obj 99) demo_world) = Some NameError
   \<and> sys_attrs (snd (snd (init_SysHijack (Obj 1) demo_proxy (Obj 99) demo_world)))
        (systemState demo_world (Obj 1)) ''_init_time'' = None"
  by (simp add: init_SysHijack_def global_name_def hijack_globals_def demo_world_def)

end
